theory Spec2Isabelle
  imports Main "HOL-Library.Sublist" "HOL-Library.AList"
begin

section \<open>The rule catalog's types\<close>

text \<open>
  Modelled from the spec: the module \<^verbatim>\<open>./global-definitions\<close> (the types
  \<^verbatim>\<open>NormalNode\<close>, \<^verbatim>\<open>ProxyHandleRule\<close> and the member access kinds, the tables
  \<^verbatim>\<open>globalConstructorWithStatics\<close> and \<^verbatim>\<open>globalVars\<close>, the predicates
  \<^verbatim>\<open>isGlobalCtor\<close> and \<^verbatim>\<open>isGlobalVar\<close>) is imported by the plugin and is not among the
  sources. The types follow section 3 of the specification; the tables and predicates are
  parameters of the model (the record \<open>Catalog\<close> below).
\<close>

datatype MemberAccessKind = Constant | Func | FuncBind | Property

type_synonym Members = "(string \<times> MemberAccessKind) list"

datatype NormalNode = ConstructorNode Members | ObjectNode Members | FuncNode

datatype PlatformDiff = DiffNoop | DiffNode NormalNode

datatype ProxyHandleRule =
    Noop
  | Normal NormalNode
  | Platform "(string \<times> PlatformDiff) list"

record Catalog =
  isGlobalCtor :: "string \<Rightarrow> bool"
  isGlobalVar :: "string \<Rightarrow> bool"
  globalConstructorWithStatics :: "string \<Rightarrow> ProxyHandleRule option"
  globalVars :: "string \<Rightarrow> ProxyHandleRule option"

section \<open>Errors and JavaScript values\<close>

text \<open>
  \<open>Error msg\<close> is \<^verbatim>\<open>throw new Error(msg)\<close> of \<^verbatim>\<open>die\<close>; \<open>TypeError\<close> is what the
  engine throws on reading a property of \<^verbatim>\<open>undefined\<close> and on
  \<^verbatim>\<open>Object.entries(undefined)\<close>; \<open>IOError\<close> is a rejected \<^verbatim>\<open>readFile\<close>.
\<close>

datatype error = Error string | TypeError | IOError

text \<open>
  A key of the options object is absent, present with the value \<^verbatim>\<open>undefined\<close>, or
  present with a value.
\<close>

datatype 'a js_prop = Absent | Undefined | Given 'a

text \<open>
  A JavaScript object is the association list of its properties in the order of their
  creation; the assignment \<^verbatim>\<open>obj[key] = value\<close> is \<open>AList.update\<close>, which keeps the
  place of a key that is there and puts a new key last. Enumerating an object
  (\<^verbatim>\<open>Object.keys\<close>, \<^verbatim>\<open>Object.entries\<close>, the sources of \<^verbatim>\<open>Object.assign\<close>) lists
  the keys that are array indices first, in ascending numeric order, and then the other
  keys in the order of their creation. An array index is the canonical decimal numeral of
  an integer below 4294967295.
\<close>

definition digitOf :: "char \<Rightarrow> nat option" where
  "digitOf c = map_of (zip ''0123456789'' [0, 1, 2, 3, 4, 5, 6, 7, 8, 9]) c"

fun decimalOf :: "nat \<Rightarrow> string \<Rightarrow> nat option" where
  "decimalOf n [] = Some n"
| "decimalOf n (c # cs) =
     (case digitOf c of
        None \<Rightarrow> None
      | Some d \<Rightarrow> decimalOf (10 * n + d) cs)"

definition arrayIndex :: "string \<Rightarrow> nat option" where
  "arrayIndex key =
     (case key of
        [] \<Rightarrow> None
      | c # cs \<Rightarrow>
          if c = CHR ''0'' \<and> cs \<noteq> [] then None
          else (case decimalOf 0 key of
                  None \<Rightarrow> None
                | Some n \<Rightarrow> if n < 4294967295 then Some n else None))"

definition isArrayIndex :: "string \<Rightarrow> bool" where
  "isArrayIndex key = (arrayIndex key \<noteq> None)"

definition indexOf :: "string \<Rightarrow> nat" where
  "indexOf key = (case arrayIndex key of None \<Rightarrow> 0 | Some n \<Rightarrow> n)"

definition objectEntries :: "(string \<times> 'v) list \<Rightarrow> (string \<times> 'v) list" where
  "objectEntries obj =
     sort_key (\<lambda>entry. indexOf (fst entry)) (filter (\<lambda>entry. isArrayIndex (fst entry)) obj)
     @ filter (\<lambda>entry. \<not> isArrayIndex (fst entry)) obj"

definition objectKeys :: "(string \<times> 'v) list \<Rightarrow> string list" where
  "objectKeys obj = map fst (objectEntries obj)"

text \<open>\<^verbatim>\<open>String.prototype.includes\<close>: the argument occurs as a substring.\<close>

fun str_includes :: "string \<Rightarrow> string \<Rightarrow> bool" where
  "str_includes [] sub = (sub = [])"
| "str_includes (c # cs) sub = (prefix sub (c # cs) \<or> str_includes cs sub)"

text \<open>\<^verbatim>\<open>Array.prototype.join\<close>.\<close>

fun join :: "string \<Rightarrow> string list \<Rightarrow> string" where
  "join sep [] = []"
| "join sep [x] = x"
| "join sep (x # y # ys) = x @ sep @ join sep (y # ys)"

section \<open>Rules of a namespace\<close>

text \<open>
  The declared type of \<^verbatim>\<open>ProxyNamespaceRuleConfig\<close> requires \<^verbatim>\<open>rule\<close>; a JavaScript
  caller can still leave it out, and \<^verbatim>\<open>patchProxyNamespaceRuleConfig\<close> copies whatever is
  there. \<open>None\<close> is \<^verbatim>\<open>undefined\<close>.
\<close>

record ProxyNamespaceRuleConfig =
  cfg_code :: "string option"
  cfg_rule :: "ProxyHandleRule option"
  cfg_applyTo :: "(string \<Rightarrow> bool) option"

record ProxyNamespaceRule =
  code :: string
  rule :: "ProxyHandleRule option"
  applyTo :: "string \<Rightarrow> bool"

definition defaultApplyTo :: "string \<Rightarrow> bool" where
  "defaultApplyTo path = (\<not> str_includes path ''node_modules'')"

definition defaultProxyNamespaceRule :: "Catalog \<Rightarrow> string \<Rightarrow> error + ProxyNamespaceRule" where
  "defaultProxyNamespaceRule cat name =
     (if isGlobalCtor cat name
      then Inr \<lparr>code = [], rule = globalConstructorWithStatics cat name, applyTo = defaultApplyTo\<rparr>
      else if isGlobalVar cat name
      then Inr \<lparr>code = [], rule = globalVars cat name, applyTo = defaultApplyTo\<rparr>
      else Inl (Error (''Unknown global name '' @ name)))"

definition patchProxyNamespaceRuleConfig :: "ProxyNamespaceRuleConfig \<Rightarrow> ProxyNamespaceRule" where
  "patchProxyNamespaceRuleConfig config =
     \<lparr>code = (case cfg_code config of None \<Rightarrow> [] | Some c \<Rightarrow> c),
      rule = cfg_rule config,
      applyTo = (case cfg_applyTo config of None \<Rightarrow> defaultApplyTo | Some f \<Rightarrow> f)\<rparr>"

type_synonym ApplyMapping = "(string \<times> ProxyNamespaceRule) list"

datatype ApplyRulesConfig =
    NameList "string list"
  | MappingForm "(string \<times> ProxyNamespaceRuleConfig) list"

text \<open>
  The options object as \<^verbatim>\<open>setup\<close> receives it. \<^verbatim>\<open>pure\<close> is a key that
  \<^verbatim>\<open>tests/run-test.mjs\<close> passes; \<^verbatim>\<open>Object.assign\<close> copies it and nothing reads it.
\<close>

record PluginOptions =
  constructors :: "ApplyRulesConfig js_prop"
  vars :: "ApplyRulesConfig js_prop"
  lib :: "ApplyMapping js_prop"
  pure :: "bool js_prop"

text \<open>
  One key of \<^verbatim>\<open>Object.assign({}, defaultOptions, options)\<close>: a key of \<^verbatim>\<open>options\<close>,
  also one holding \<^verbatim>\<open>undefined\<close>, replaces the default.
\<close>

definition assignKey :: "'a \<Rightarrow> 'a js_prop \<Rightarrow> 'a option" where
  "assignKey dflt p = (case p of Absent \<Rightarrow> Some dflt | Undefined \<Rightarrow> None | Given v \<Rightarrow> Some v)"

definition mergedKey :: "'a \<Rightarrow> (PluginOptions \<Rightarrow> 'a js_prop) \<Rightarrow> PluginOptions option \<Rightarrow> 'a option" where
  "mergedKey dflt key options =
     (case options of None \<Rightarrow> Some dflt | Some opts \<Rightarrow> assignKey dflt (key opts))"

definition defaultConstructors :: ApplyRulesConfig where
  "defaultConstructors = NameList [''Object'']"

definition defaultVars :: ApplyRulesConfig where
  "defaultVars = NameList [''console'', ''JSON'', ''Math'', ''Reflect'']"

definition pureComment :: string where
  "pureComment = ''/* @__PURE__ */''"

definition pluginName :: string where
  "pluginName = ''esbuild-plugin-global-api''"

definition proxyModule :: string where
  "proxyModule = ''@'' @ pluginName @ ''/do-not-use-in-your-code''"

definition createProxyUrl :: "string \<Rightarrow> string" where
  "createProxyUrl namespace = proxyModule @ ''-'' @ namespace"

section \<open>Resolving the configured names\<close>

text \<open>
  The callback of \<^verbatim>\<open>reduce\<close> over a plain list of names. \<^verbatim>\<open>!applyRule\<close> tests an
  object, which is never falsy. The accumulator carries the warnings printed so far.
\<close>

definition falsy :: "ProxyNamespaceRule \<Rightarrow> bool" where
  "falsy applyRule = False"

fun reduceNames ::
  "string \<Rightarrow> Catalog \<Rightarrow> string list \<times> ApplyMapping \<Rightarrow> string list \<Rightarrow> error + (string list \<times> ApplyMapping)"
where
  "reduceNames what cat (warns, acc) [] = Inr (warns, acc)"
| "reduceNames what cat (warns, acc) (name # names) =
     (case defaultProxyNamespaceRule cat name of
        Inl e \<Rightarrow> Inl e
      | Inr applyRule \<Rightarrow>
          if falsy applyRule
          then reduceNames what cat
                 (warns @ [''Unknown global '' @ what @ '' '' @ [CHR 0x22] @ name @ [CHR 0x22] @ '', ignored.''], acc)
                 names
          else reduceNames what cat (warns, AList.update name applyRule acc) names)"

text \<open>The callback of \<^verbatim>\<open>reduce\<close> over the entries of a mapping.\<close>

fun reduceEntries :: "ApplyMapping \<Rightarrow> (string \<times> ProxyNamespaceRuleConfig) list \<Rightarrow> ApplyMapping" where
  "reduceEntries acc [] = acc"
| "reduceEntries acc ((name, config) # entries) =
     reduceEntries (AList.update name (patchProxyNamespaceRuleConfig config) acc) entries"

text \<open>
  \<^verbatim>\<open>Array.isArray(c) ? c.reduce(...) : Object.entries(c).reduce(...)\<close>, where
  \<^verbatim>\<open>Object.entries(undefined)\<close> throws.
\<close>

definition applyRules ::
  "string \<Rightarrow> Catalog \<Rightarrow> string list \<Rightarrow> ApplyRulesConfig option \<Rightarrow> error + (string list \<times> ApplyMapping)"
where
  "applyRules what cat warns config =
     (case config of
        None \<Rightarrow> Inl TypeError
      | Some (NameList names) \<Rightarrow> reduceNames what cat (warns, []) names
      | Some (MappingForm entries) \<Rightarrow> Inr (warns, reduceEntries [] (objectEntries entries)))"

text \<open>
  \<^verbatim>\<open>Object.assign(target, source)\<close>: the properties of the source, in the order of
  its enumeration, are assigned to the target.
\<close>

fun assignEntries :: "(string \<times> 'v) list \<Rightarrow> (string \<times> 'v) list \<Rightarrow> (string \<times> 'v) list" where
  "assignEntries target [] = target"
| "assignEntries target ((k, v) # entries) = assignEntries (AList.update k v target) entries"

definition objectAssign :: "(string \<times> 'v) list \<Rightarrow> (string \<times> 'v) list \<Rightarrow> (string \<times> 'v) list" where
  "objectAssign target source = assignEntries target (objectEntries source)"

definition mergedNamespaces :: "ApplyMapping \<Rightarrow> ApplyMapping \<Rightarrow> ApplyMapping \<Rightarrow> ApplyMapping" where
  "mergedNamespaces cs vs l = objectAssign (objectAssign (objectAssign [] cs) vs) l"

section \<open>The proxy scripts\<close>

record ProxyEntry =
  url :: string
  proxyNamespaceImportsScript :: string
  proxyNamespaceExportsScript :: string

type_synonym ProxyMapping = "string \<rightharpoonup> ProxyEntry"

definition varOnlyEntry :: "string \<Rightarrow> string \<Rightarrow> ProxyEntry" where
  "varOnlyEntry namespace c =
     \<lparr>url = createProxyUrl namespace,
      proxyNamespaceImportsScript =
        ''import {'' @ namespace @ ''}from '' @ [CHR 0x27] @ createProxyUrl namespace @ [CHR 0x27] @ '';'',
      proxyNamespaceExportsScript = c @ ''export const '' @ namespace @ ''='' @ namespace @ '';''\<rparr>"

definition varOnly :: "ProxyMapping \<Rightarrow> string \<Rightarrow> string \<Rightarrow> ProxyMapping" where
  "varOnly m namespace c = m(namespace \<mapsto> varOnlyEntry namespace c)"

text \<open>The script of one member: the callback of \<^verbatim>\<open>keys.map\<close>.\<close>

definition evalScript :: "string \<Rightarrow> Members \<Rightarrow> string \<Rightarrow> string" where
  "evalScript namespace members member =
     (case map_of members member of
        Some Constant \<Rightarrow> ''const '' @ member @ ''='' @ pureComment @ namespace @ ''.'' @ member @ '';''
      | Some Func \<Rightarrow> ''const '' @ member @ ''='' @ pureComment @ namespace @ ''.'' @ member @ '';''
      | Some FuncBind \<Rightarrow>
          ''const '' @ member @ ''='' @ pureComment @ namespace @ ''.'' @ member @ ''.bind('' @ namespace @ '');''
      | _ \<Rightarrow> [])"

definition evalScripts :: "string \<Rightarrow> Members \<Rightarrow> string" where
  "evalScripts namespace members = concat (map (evalScript namespace members) (objectKeys members))"

definition membersEntry :: "string \<Rightarrow> string \<Rightarrow> Members \<Rightarrow> ProxyEntry" where
  "membersEntry namespace c members =
     \<lparr>url = createProxyUrl namespace,
      proxyNamespaceImportsScript =
        ''import * as '' @ namespace @ '' from '' @ [CHR 0x22] @ createProxyUrl namespace @ [CHR 0x22] @ '';'',
      proxyNamespaceExportsScript =
        c @ evalScripts namespace members @ ''export {'' @ join '','' (objectKeys members) @ ''};''\<rparr>"

text \<open>
  \<^verbatim>\<open>basic\<close>: the switch over the type of a node. Its default branch, which leaves the
  mapping as it is, is for a type other than the three that a node can have.
\<close>

fun basic :: "ProxyMapping \<Rightarrow> string \<Rightarrow> string \<Rightarrow> NormalNode \<Rightarrow> ProxyMapping" where
  "basic m namespace c (ConstructorNode members) = m(namespace \<mapsto> membersEntry namespace c members)"
| "basic m namespace c (ObjectNode members) = m(namespace \<mapsto> membersEntry namespace c members)"
| "basic m namespace c FuncNode = varOnly m namespace c"

text \<open>
  The callback of the \<^verbatim>\<open>reduce\<close> that builds \<^verbatim>\<open>proxyMapping\<close>. Reading
  \<^verbatim>\<open>rule.type\<close> of a missing rule, and \<^verbatim>\<open>node.type\<close> of a missing platform diff, throw.
\<close>

definition proxyStep :: "string \<Rightarrow> ProxyMapping \<Rightarrow> string \<times> ProxyNamespaceRule \<Rightarrow> error + ProxyMapping" where
  "proxyStep platform m entry =
     (case entry of (namespace, r) \<Rightarrow>
        (case rule r of
           None \<Rightarrow> Inl TypeError
         | Some Noop \<Rightarrow> Inr (varOnly m namespace (code r))
         | Some (Normal FuncNode) \<Rightarrow> Inr (varOnly m namespace (code r))
         | Some (Platform diffs) \<Rightarrow>
             (case map_of diffs platform of
                None \<Rightarrow> Inl TypeError
              | Some DiffNoop \<Rightarrow> Inr (varOnly m namespace (code r))
              | Some (DiffNode detail) \<Rightarrow> Inr (basic m namespace (code r) detail))
         | Some (Normal node) \<Rightarrow> Inr (basic m namespace (code r) node)))"

fun proxyReduce :: "string \<Rightarrow> ProxyMapping \<Rightarrow> ApplyMapping \<Rightarrow> error + ProxyMapping" where
  "proxyReduce platform m [] = Inr m"
| "proxyReduce platform m (entry # entries) =
     (case proxyStep platform m entry of
        Inl e \<Rightarrow> Inl e
      | Inr m' \<Rightarrow> proxyReduce platform m' entries)"

section \<open>Setup\<close>

text \<open>
  \<^verbatim>\<open>!_platform || _platform === "neutral" ? "node" : _platform\<close>; the empty string is
  falsy as \<^verbatim>\<open>undefined\<close> is.
\<close>

definition effectivePlatform :: "string option \<Rightarrow> string" where
  "effectivePlatform p =
     (case p of
        None \<Rightarrow> ''node''
      | Some s \<Rightarrow> if s = [] \<or> s = ''neutral'' then ''node'' else s)"

record PluginState =
  warnings :: "string list"
  namespaceEntries :: ApplyMapping
  proxyMapping :: ProxyMapping

text \<open>\<^verbatim>\<open>_lib ?? {}\<close> on the merged options.\<close>

definition libOf :: "PluginOptions option \<Rightarrow> ApplyMapping" where
  "libOf options = (case mergedKey [] lib options of None \<Rightarrow> [] | Some l \<Rightarrow> l)"

definition pluginSetup :: "Catalog \<Rightarrow> string option \<Rightarrow> PluginOptions option \<Rightarrow> error + PluginState" where
  "pluginSetup cat platformOption options =
     (case applyRules ''constructor'' cat [] (mergedKey defaultConstructors constructors options) of
        Inl e \<Rightarrow> Inl e
      | Inr (warns1, cs) \<Rightarrow>
         (case applyRules ''variable'' cat warns1 (mergedKey defaultVars vars options) of
            Inl e \<Rightarrow> Inl e
          | Inr (warns2, vs) \<Rightarrow>
             (let l = libOf options;
                  entries = objectEntries (mergedNamespaces cs vs l)
              in case proxyReduce (effectivePlatform platformOption) Map.empty entries of
                   Inl e \<Rightarrow> Inl e
                 | Inr m \<Rightarrow> Inr \<lparr>warnings = warns2, namespaceEntries = entries, proxyMapping = m\<rparr>)))"

section \<open>Loading a real file\<close>

datatype Loader = Js | Jsx | Ts | Tsx

record OnLoadResult =
  contents :: string
  loader :: Loader

text \<open>
  The two library calls of the handler: \<^verbatim>\<open>parse(path).ext\<close> of Node's \<^verbatim>\<open>path\<close> module
  and \<^verbatim>\<open>readFile\<close>, whose buffer the template literal converts to a string.
\<close>

record Env =
  parseExt :: "string \<Rightarrow> string"
  readFile :: "string \<Rightarrow> error + string"

definition scriptExtensions :: "string list" where
  "scriptExtensions = [''.js'', ''.ts'', ''.jsx'', ''.tsx'', ''.cjs'', ''.cts'', ''.mjs'', ''.mts'']"

definition chooseLoader :: "string \<Rightarrow> Loader" where
  "chooseLoader ext =
     (let isTypeScript = str_includes ext ''t''; isReact = str_includes ext ''x''
      in if isTypeScript then (if isReact then Tsx else Ts) else if isReact then Jsx else Js)"

text \<open>
  \<^verbatim>\<open>proxyMapping[namespace].proxyNamespaceImportsScript\<close> for each matched entry; a
  namespace missing from the mapping makes the property read throw.
\<close>

fun importScripts :: "ProxyMapping \<Rightarrow> ApplyMapping \<Rightarrow> error + string list" where
  "importScripts m [] = Inr []"
| "importScripts m ((namespace, r) # entries) =
     (case m namespace of
        None \<Rightarrow> Inl TypeError
      | Some e \<Rightarrow>
         (case importScripts m entries of
            Inl err \<Rightarrow> Inl err
          | Inr scripts \<Rightarrow> Inr (proxyNamespaceImportsScript e # scripts)))"

definition matchedNamespaceEntries :: "PluginState \<Rightarrow> string \<Rightarrow> ApplyMapping" where
  "matchedNamespaceEntries st path = filter (\<lambda>entry. applyTo (snd entry) path) (namespaceEntries st)"

definition onLoadFile :: "Env \<Rightarrow> PluginState \<Rightarrow> string \<Rightarrow> error + OnLoadResult option" where
  "onLoadFile env st path =
     (let matched = matchedNamespaceEntries st path
      in if matched = [] then Inr None
         else let ext = parseExt env path
              in if ext \<in> set scriptExtensions
                 then (case readFile env path of
                         Inl e \<Rightarrow> Inl e
                       | Inr content \<Rightarrow>
                          (case importScripts (proxyMapping st) matched of
                             Inl e \<Rightarrow> Inl e
                           | Inr scripts \<Rightarrow>
                               Inr (Some \<lparr>contents = concat scripts @ [CHR 0x0A] @ content,
                                         loader = chooseLoader ext\<rparr>)))
                 else Inr None)"

section \<open>Notions used to state the properties\<close>

text \<open>
  The member table that a rule resolves to under a platform, when it resolves to a node
  of type \<^verbatim>\<open>object\<close> or \<^verbatim>\<open>constructor\<close>.
\<close>

fun nodeMembers :: "NormalNode \<Rightarrow> Members option" where
  "nodeMembers (ConstructorNode members) = Some members"
| "nodeMembers (ObjectNode members) = Some members"
| "nodeMembers FuncNode = None"

definition resolvedMembers :: "string \<Rightarrow> ProxyNamespaceRule \<Rightarrow> Members option" where
  "resolvedMembers platform r =
     (case rule r of
        Some (Normal node) \<Rightarrow> nodeMembers node
      | Some (Platform diffs) \<Rightarrow>
          (case map_of diffs platform of
             Some (DiffNode node) \<Rightarrow> nodeMembers node
           | _ \<Rightarrow> None)
      | _ \<Rightarrow> None)"

text \<open>The scripts that a run of setup stores for a namespace.\<close>

definition exportsScriptOf :: "error + PluginState \<Rightarrow> string \<Rightarrow> string option" where
  "exportsScriptOf res namespace =
     (case res of
        Inl e \<Rightarrow> None
      | Inr st \<Rightarrow> map_option proxyNamespaceExportsScript (proxyMapping st namespace))"

definition importsScriptOf :: "error + PluginState \<Rightarrow> string \<Rightarrow> string option" where
  "importsScriptOf res namespace =
     (case res of
        Inl e \<Rightarrow> None
      | Inr st \<Rightarrow> map_option proxyNamespaceImportsScript (proxyMapping st namespace))"

text \<open>
  A small catalog for concrete runs; the plugin's own tables are not among the sources.
\<close>

definition sampleCatalog :: Catalog where
  "sampleCatalog =
     \<lparr>isGlobalCtor = (\<lambda>name. name \<in> set [''Object'']),
      isGlobalVar = (\<lambda>name. name \<in> set [''console'', ''JSON'', ''Math'', ''Reflect'']),
      globalConstructorWithStatics =
        map_of [(''Object'', Normal (ConstructorNode [(''keys'', Func), (''assign'', Func)]))],
      globalVars =
        map_of [(''console'', Normal (ObjectNode [(''log'', FuncBind)])),
                (''JSON'', Normal (ObjectNode [(''parse'', Func), (''stringify'', Func)])),
                (''Math'', Normal (ObjectNode [(''PI'', Constant), (''max'', Func)])),
                (''Reflect'',
                 Platform [(''node'', DiffNode (ObjectNode [(''ownKeys'', Func)])),
                           (''browser'', DiffNoop)])]\<rparr>"

definition reflectOptions :: PluginOptions where
  "reflectOptions =
     \<lparr>constructors = Given (NameList []), vars = Given (NameList [''Reflect'']),
      lib = Absent, pure = Absent\<rparr>"

definition reflectRule :: ProxyNamespaceRule where
  "reflectRule =
     \<lparr>code = [],
      rule = Some (Platform [(''node'', DiffNode (ObjectNode [(''ownKeys'', Func)])),
                             (''browser'', DiffNoop)]),
      applyTo = defaultApplyTo\<rparr>"

text \<open>The import fragments that the mapping holds for a list of entries, in their order.\<close>

definition importFragments :: "PluginState \<Rightarrow> ApplyMapping \<Rightarrow> string list" where
  "importFragments st entries =
     map (\<lambda>entry. case proxyMapping st (fst entry) of
                     None \<Rightarrow> []
                   | Some e \<Rightarrow> proxyNamespaceImportsScript e) entries"

text \<open>A list without the repetitions of its elements: each one stays where it is first.\<close>

fun firstOccurrences :: "'a list \<Rightarrow> 'a list" where
  "firstOccurrences [] = []"
| "firstOccurrences (x # xs) = x # firstOccurrences (filter (\<lambda>y. y \<noteq> x) xs)"

text \<open>The file handler of a plugin whose setup has run.\<close>

definition onLoadAfterSetup :: "Env \<Rightarrow> error + PluginState \<Rightarrow> string \<Rightarrow> error + OnLoadResult option" where
  "onLoadAfterSetup env res path =
     (case res of
        Inl e \<Rightarrow> Inl e
      | Inr st \<Rightarrow> onLoadFile env st path)"

text \<open>
  An environment for concrete runs: the extension is what follows the last dot, and every
  file holds the same line.
\<close>

definition sampleEnv :: Env where
  "sampleEnv =
     \<lparr>parseExt = (\<lambda>path. CHR ''.'' # rev (takeWhile (\<lambda>c. c \<noteq> CHR ''.'') (rev path))),
      readFile = (\<lambda>path. Inr ''console.log(1);'')\<rparr>"

definition collisionOptions :: PluginOptions where
  "collisionOptions =
     \<lparr>constructors = Given (NameList [''Object'']),
      vars = Given (NameList [''console'']),
      lib = Given [(''React'', \<lparr>code = ''/* lib */'',
                               rule = Some (Normal (ObjectNode [(''createElement'', FuncBind)])),
                               applyTo = (\<lambda>path. True)\<rparr>),
                   (''Object'', \<lparr>code = [], rule = Some Noop, applyTo = (\<lambda>path. True)\<rparr>)],
      pure = Absent\<rparr>"

definition collisionEntries :: ApplyMapping where
  "collisionEntries =
     [(''Object'', \<lparr>code = [], rule = Some Noop, applyTo = (\<lambda>path. True)\<rparr>),
      (''console'', \<lparr>code = [], rule = Some (Normal (ObjectNode [(''log'', FuncBind)])),
                     applyTo = defaultApplyTo\<rparr>),
      (''React'', \<lparr>code = ''/* lib */'',
                   rule = Some (Normal (ObjectNode [(''createElement'', FuncBind)])),
                   applyTo = (\<lambda>path. True)\<rparr>)]"

definition propertyOptions :: PluginOptions where
  "propertyOptions =
     \<lparr>constructors = Given (NameList []),
      vars = Given (NameList []),
      lib = Given [(''console'',
                    \<lparr>code = [],
                     rule = Some (Normal (ObjectNode [(''log'', FuncBind), (''memory'', Property)])),
                     applyTo = defaultApplyTo\<rparr>)],
      pure = Absent\<rparr>"

definition unknownNameOptions :: PluginOptions where
  "unknownNameOptions =
     \<lparr>constructors = Given (NameList [''Object'', ''Foo'']),
      vars = Given (NameList [''console'']),
      lib = Absent, pure = Absent\<rparr>"

definition undefinedOptions :: PluginOptions where
  "undefinedOptions = \<lparr>constructors = Undefined, vars = Absent, lib = Absent, pure = Absent\<rparr>"

definition omittedOptions :: PluginOptions where
  "omittedOptions = \<lparr>constructors = Absent, vars = Given (NameList []), lib = Absent, pure = Absent\<rparr>"

definition pureOffOptions :: PluginOptions where
  "pureOffOptions =
     \<lparr>constructors = Given (NameList []),
      vars = Given (NameList []),
      lib = Given [(''console'',
                    \<lparr>code = [],
                     rule = Some (Normal (ObjectNode [(''log'', FuncBind), (''error'', Func)])),
                     applyTo = defaultApplyTo\<rparr>)],
      pure = Given False\<rparr>"





section \<open>Auxiliary facts\<close>

subsection \<open>Enumerating an object\<close>

lemma set_objectEntries [simp]: "set (objectEntries obj) = set obj"
  by (auto simp: objectEntries_def)





lemma distinct_objectEntries:
  "distinct (map fst obj) \<Longrightarrow> distinct (map fst (objectEntries obj))"
  by (auto simp: objectEntries_def distinct_map inj_on_def)





lemma objectEntries_no_index:
  "list_all (\<lambda>entry. \<not> isArrayIndex (fst entry)) obj \<Longrightarrow> objectEntries obj = obj"
  by (simp add: objectEntries_def list_all_iff filter_empty_conv)

lemma arrayIndex_letter: "digitOf c = None \<Longrightarrow> \<not> isArrayIndex (c # cs)"
  by (simp add: isArrayIndex_def arrayIndex_def)

subsection \<open>Strings and proxies\<close>

lemma str_includes_sublist: "str_includes s sub = sublist sub s"
  by (induction s) (auto simp: sublist_Cons_right)

lemma str_includes_iff: "str_includes s sub \<longleftrightarrow> (\<exists>pre post. s = pre @ sub @ post)"
  by (simp add: str_includes_sublist sublist_def)

lemma basic_members:
  "nodeMembers node = Some members \<Longrightarrow> basic m namespace c node = m(namespace \<mapsto> membersEntry namespace c members)"
  by (cases node) auto

lemma proxyStep_members:
  "resolvedMembers platform r = Some members \<Longrightarrow>
   proxyStep platform m (namespace, r) = Inr (m(namespace \<mapsto> membersEntry namespace (code r) members))"
  by (auto simp: resolvedMembers_def proxyStep_def basic_members
           split: option.splits ProxyHandleRule.splits PlatformDiff.splits NormalNode.splits)

lemma basic_upd: "\<exists>e. \<forall>m. basic m namespace c node = m(namespace \<mapsto> e)"
  by (cases node) (auto simp: varOnly_def)

lemma proxyStep_uniform:
  "(\<forall>m0. proxyStep platform m0 (namespace, r) = Inl TypeError) \<or>
   (\<exists>e. \<forall>m0. proxyStep platform m0 (namespace, r) = Inr (m0(namespace \<mapsto> e)))"
proof (cases "rule r")
  case None
  then show ?thesis by (simp add: proxyStep_def)
next
  case (Some hr)
  show ?thesis
  proof (cases hr)
    case Noop
    with Some show ?thesis by (auto simp: proxyStep_def varOnly_def)
  next
    case (Normal node)
    from basic_upd [of namespace "code r" node] obtain e
      where "\<forall>m. basic m namespace (code r) node = m(namespace \<mapsto> e)" by blast
    with Some Normal show ?thesis
      by (cases node) (auto simp: proxyStep_def)
  next
    case (Platform diffs)
    show ?thesis
    proof (cases "map_of diffs platform")
      case None
      with Some Platform show ?thesis by (simp add: proxyStep_def)
    next
      case (Some d)
      note d = this
      show ?thesis
      proof (cases d)
        case DiffNoop
        with d \<open>rule r = Some hr\<close> Platform show ?thesis by (auto simp: proxyStep_def varOnly_def)
      next
        case (DiffNode node)
        from basic_upd [of namespace "code r" node] obtain e
          where "\<forall>m. basic m namespace (code r) node = m(namespace \<mapsto> e)" by blast
        with d \<open>rule r = Some hr\<close> Platform DiffNode show ?thesis by (auto simp: proxyStep_def)
      qed
    qed
  qed
qed

lemma proxyStep_upd:
  assumes "proxyStep platform m (namespace, r) = Inr m'"
  shows "\<exists>e. m' = m(namespace \<mapsto> e) \<and>
             (\<forall>m0. proxyStep platform m0 (namespace, r) = Inr (m0(namespace \<mapsto> e)))"
  using proxyStep_uniform [of platform namespace r] assms by auto

lemma proxyReduce_other:
  "proxyReduce platform m entries = Inr m' \<Longrightarrow> namespace \<notin> fst ` set entries \<Longrightarrow> m' namespace = m namespace"
proof (induction entries arbitrary: m)
  case Nil
  then show ?case by simp
next
  case (Cons entry entries)
  obtain n r where entry: "entry = (n, r)" by (cases entry)
  from Cons.prems(1) obtain m1 where step: "proxyStep platform m (n, r) = Inr m1"
    and rest: "proxyReduce platform m1 entries = Inr m'"
    by (auto simp: entry split: sum.splits)
  from proxyStep_upd [OF step] obtain e where "m1 = m(n \<mapsto> e)" by blast
  moreover from Cons.prems(2) have "namespace \<noteq> n" "namespace \<notin> fst ` set entries"
    by (auto simp: entry)
  ultimately show ?case using Cons.IH [OF rest] by simp
qed

lemma proxyReduce_lookup:
  "proxyReduce platform m entries = Inr m' \<Longrightarrow> distinct (map fst entries) \<Longrightarrow>
   (namespace, r) \<in> set entries \<Longrightarrow>
   \<exists>e. m' namespace = Some e \<and> (\<forall>m0. proxyStep platform m0 (namespace, r) = Inr (m0(namespace \<mapsto> e)))"
proof (induction entries arbitrary: m)
  case Nil
  then show ?case by simp
next
  case (Cons entry entries)
  obtain n r' where entry: "entry = (n, r')" by (cases entry)
  from Cons.prems(1) obtain m1 where step: "proxyStep platform m (n, r') = Inr m1"
    and rest: "proxyReduce platform m1 entries = Inr m'"
    by (auto simp: entry split: sum.splits)
  show ?case
  proof (cases "(namespace, r) = entry")
    case True
    then have eq: "n = namespace" "r' = r" by (simp_all add: entry)
    from proxyStep_upd [OF step] obtain e where m1: "m1 = m(n \<mapsto> e)"
      and all: "\<forall>m0. proxyStep platform m0 (n, r') = Inr (m0(n \<mapsto> e))" by blast
    from Cons.prems(2) have "namespace \<notin> fst ` set entries" by (simp add: entry eq)
    from proxyReduce_other [OF rest this] have "m' namespace = Some e" by (simp add: m1 eq)
    with all show ?thesis by (auto simp: eq)
  next
    case False
    with Cons.prems(3) have "(namespace, r) \<in> set entries" by simp
    moreover from Cons.prems(2) have "distinct (map fst entries)" by simp
    ultimately show ?thesis using Cons.IH [OF rest] by blast
  qed
qed

lemma distinct_assignEntries:
  "distinct (map fst target) \<Longrightarrow> distinct (map fst (assignEntries target entries))"
  by (induction target entries rule: assignEntries.induct) (simp_all add: distinct_update)

lemma distinct_objectAssign:
  "distinct (map fst target) \<Longrightarrow> distinct (map fst (objectAssign target source))"
  by (simp add: objectAssign_def distinct_assignEntries)

lemma distinct_mergedNamespaces: "distinct (map fst (mergedNamespaces cs vs l))"
  by (simp add: mergedNamespaces_def distinct_objectAssign)

lemma pluginSetup_Inr:
  assumes "pluginSetup cat p options = Inr st"
  shows "distinct (map fst (namespaceEntries st))"
    and "proxyReduce (effectivePlatform p) Map.empty (namespaceEntries st) = Inr (proxyMapping st)"
  using assms
  by (auto simp: pluginSetup_def Let_def distinct_mergedNamespaces distinct_objectEntries
           split: sum.splits prod.splits)

lemma pluginSetup_entry:
  assumes "pluginSetup cat p options = Inr st" and "(namespace, r) \<in> set (namespaceEntries st)"
  shows "\<exists>e. proxyMapping st namespace = Some e \<and>
             (\<forall>m0. proxyStep (effectivePlatform p) m0 (namespace, r) = Inr (m0(namespace \<mapsto> e)))"
  using proxyReduce_lookup [OF pluginSetup_Inr(2) [OF assms(1)] pluginSetup_Inr(1) [OF assms(1)] assms(2)] .

lemma map_upd_same_eq: "m(k \<mapsto> a) = m(k \<mapsto> b) \<Longrightarrow> a = b"
  by (metis fun_upd_same option.inject)

lemma pluginSetup_members:
  assumes "pluginSetup cat p options = Inr st" and "(namespace, r) \<in> set (namespaceEntries st)"
    and "resolvedMembers (effectivePlatform p) r = Some members"
  shows "proxyMapping st namespace = Some (membersEntry namespace (code r) members)"
proof -
  from pluginSetup_entry [OF assms(1,2)] obtain e where e: "proxyMapping st namespace = Some e"
    and all: "\<forall>m0. proxyStep (effectivePlatform p) m0 (namespace, r) = Inr (m0(namespace \<mapsto> e))"
    by blast
  from all proxyStep_members [OF assms(3), of Map.empty namespace]
  have "e = membersEntry namespace (code r) members"
    by (auto dest: map_upd_same_eq)
  with e show ?thesis by simp
qed

subsection \<open>Evaluating concrete runs\<close>

lemmas enumerate_eval =
  objectKeys_def objectEntries_def isArrayIndex_def arrayIndex_def digitOf_def

lemmas setup_eval =
  pluginSetup_def applyRules_def mergedKey_def assignKey_def libOf_def
  defaultProxyNamespaceRule_def sampleCatalog_def falsy_def mergedNamespaces_def
  objectAssign_def proxyStep_def effectivePlatform_def enumerate_eval

section \<open>The variable-only proxy\<close>

lemma pluginSetup_varOnly:
  assumes "pluginSetup cat p options = Inr st" and "(namespace, r) \<in> set (namespaceEntries st)"
    and "\<forall>m0. proxyStep (effectivePlatform p) m0 (namespace, r) = Inr (varOnly m0 namespace (code r))"
  shows "proxyMapping st namespace = Some (varOnlyEntry namespace (code r))"
proof -
  from pluginSetup_entry [OF assms(1,2)] obtain e where e: "proxyMapping st namespace = Some e"
    and all: "\<forall>m0. proxyStep (effectivePlatform p) m0 (namespace, r) = Inr (m0(namespace \<mapsto> e))"
    by blast
  from all assms(3) have "Map.empty(namespace \<mapsto> e) = Map.empty(namespace \<mapsto> varOnlyEntry namespace (code r))"
    by (simp add: varOnly_def)
  then have "e = varOnlyEntry namespace (code r)" by (rule map_upd_same_eq)
  with e show ?thesis by simp
qed

text \<open>
  C6. When the rule of a configured namespace is \<^verbatim>\<open>"noop"\<close>, or has the shape
  \<^verbatim>\<open>{type:"func"}\<close>, or is platform-conditional with the diff of the active platform
  equal to \<^verbatim>\<open>"noop"\<close>, setup stores the variable-only proxy for it: the import
  fragment is the named import of the namespace from its synthetic module path, the
  export fragment is the extra code followed by the statement that exports the global
  under its own name, and no member is rewritten.
\<close>

theorem varOnly_proxy_emitted:
  assumes "pluginSetup cat p options = Inr st"
    and "(namespace, r) \<in> set (namespaceEntries st)"
    and "rule r = Some Noop \<or> rule r = Some (Normal FuncNode) \<or>
         (\<exists>diffs. rule r = Some (Platform diffs) \<and> map_of diffs (effectivePlatform p) = Some DiffNoop)"
  shows "proxyMapping st namespace =
           Some \<lparr>url = proxyModule @ ''-'' @ namespace,
                 proxyNamespaceImportsScript =
                   ''import {'' @ namespace @ ''}from '' @ [CHR 0x27] @ proxyModule @ ''-'' @ namespace
                     @ [CHR 0x27] @ '';'',
                 proxyNamespaceExportsScript =
                   code r @ ''export const '' @ namespace @ ''='' @ namespace @ '';''\<rparr>"
proof -
  from assms(3) have "\<forall>m0. proxyStep (effectivePlatform p) m0 (namespace, r) = Inr (varOnly m0 namespace (code r))"
    by (auto simp: proxyStep_def)
  from pluginSetup_varOnly [OF assms(1,2) this] show ?thesis
    by (simp add: varOnlyEntry_def createProxyUrl_def)
qed

lemma sample_browser_run:
  "\<exists>st. pluginSetup sampleCatalog (Some ''browser'') (Some reflectOptions) = Inr st \<and>
        namespaceEntries st = [(''Reflect'', reflectRule)]"
  by (simp add: setup_eval reflectOptions_def reflectRule_def)

theorem varOnly_proxy_emitted_witness:
  "exportsScriptOf (pluginSetup sampleCatalog (Some ''browser'') (Some reflectOptions)) ''Reflect''
     = Some ''export const Reflect=Reflect;'' \<and>
   importsScriptOf (pluginSetup sampleCatalog (Some ''browser'') (Some reflectOptions)) ''Reflect''
     = Some (''import {Reflect}from '' @ [CHR 0x27]
             @ ''@esbuild-plugin-global-api/do-not-use-in-your-code-Reflect'' @ [CHR 0x27] @ '';'')"
proof -
  from sample_browser_run obtain st
    where st: "pluginSetup sampleCatalog (Some ''browser'') (Some reflectOptions) = Inr st"
      and entries: "namespaceEntries st = [(''Reflect'', reflectRule)]"
    by blast
  have "proxyMapping st ''Reflect'' =
          Some \<lparr>url = proxyModule @ ''-'' @ ''Reflect'',
                proxyNamespaceImportsScript =
                  ''import {'' @ ''Reflect'' @ ''}from '' @ [CHR 0x27] @ proxyModule @ ''-'' @ ''Reflect''
                     @ [CHR 0x27] @ '';'',
                proxyNamespaceExportsScript =
                  code reflectRule @ ''export const '' @ ''Reflect'' @ ''='' @ ''Reflect'' @ '';''\<rparr>"
    by (rule varOnly_proxy_emitted [OF st])
       (simp_all add: entries effectivePlatform_def reflectRule_def)
  then show ?thesis
    by (simp add: st exportsScriptOf_def importsScriptOf_def proxyModule_def pluginName_def
          reflectRule_def)
qed

section \<open>Platform-conditional rules\<close>

lemma effectivePlatform_simps:
  "effectivePlatform None = ''node''"
  "effectivePlatform (Some ''neutral'') = ''node''"
  "effectivePlatform (Some ''browser'') = ''browser''"
  by (simp_all add: effectivePlatform_def)

lemma sample_node_run:
  "\<exists>st. pluginSetup sampleCatalog None (Some reflectOptions) = Inr st \<and>
        namespaceEntries st = [(''Reflect'', reflectRule)]"
  by (simp add: setup_eval reflectOptions_def reflectRule_def)

text \<open>
  C4. A platform-conditional rule is resolved with the diff of the active platform, where
  a platform that is not set, and the platform \<^verbatim>\<open>"neutral"\<close>, count as \<^verbatim>\<open>"node"\<close>. For
  a rule whose diffs give the node \<open>X\<close> for \<^verbatim>\<open>"node"\<close> and \<^verbatim>\<open>"noop"\<close> for
  \<^verbatim>\<open>"browser"\<close>: a setup under \<^verbatim>\<open>"browser"\<close> stores the variable-only proxy, and a
  setup without a platform stores the member expansion of \<open>X\<close>.
\<close>

theorem platform_selection:
  assumes "rule r = Some (Platform diffs)"
    and "map_of diffs ''node'' = Some (DiffNode X)"
    and "map_of diffs ''browser'' = Some DiffNoop"
  shows "(pluginSetup cat (Some ''browser'') options = Inr st \<and>
          (namespace, r) \<in> set (namespaceEntries st)
            \<longrightarrow> proxyMapping st namespace = Some (varOnlyEntry namespace (code r))) \<and>
         ((p = None \<or> p = Some ''neutral'') \<and> pluginSetup cat p options' = Inr st' \<and>
          (namespace, r) \<in> set (namespaceEntries st') \<and> nodeMembers X = Some members
            \<longrightarrow> proxyMapping st' namespace = Some (membersEntry namespace (code r) members))"
proof (intro conjI impI)
  assume a: "pluginSetup cat (Some ''browser'') options = Inr st \<and>
             (namespace, r) \<in> set (namespaceEntries st)"
  from assms(1,3)
  have "\<forall>m0. proxyStep (effectivePlatform (Some ''browser'')) m0 (namespace, r)
               = Inr (varOnly m0 namespace (code r))"
    by (simp add: proxyStep_def effectivePlatform_simps)
  with a show "proxyMapping st namespace = Some (varOnlyEntry namespace (code r))"
    by (blast intro: pluginSetup_varOnly)
next
  assume a: "(p = None \<or> p = Some ''neutral'') \<and> pluginSetup cat p options' = Inr st' \<and>
             (namespace, r) \<in> set (namespaceEntries st') \<and> nodeMembers X = Some members"
  then have "effectivePlatform p = ''node''"
    by (auto simp: effectivePlatform_simps)
  with assms(1,2) a have "resolvedMembers (effectivePlatform p) r = Some members"
    by (simp add: resolvedMembers_def)
  with a show "proxyMapping st' namespace = Some (membersEntry namespace (code r) members)"
    by (blast intro: pluginSetup_members)
qed

theorem platform_selection_witness:
  "exportsScriptOf (pluginSetup sampleCatalog (Some ''browser'') (Some reflectOptions)) ''Reflect''
     = Some ''export const Reflect=Reflect;'' \<and>
   exportsScriptOf (pluginSetup sampleCatalog None (Some reflectOptions)) ''Reflect''
     = Some ''const ownKeys=/* @__PURE__ */Reflect.ownKeys;export {ownKeys};''"
proof -
  from sample_browser_run obtain st
    where st: "pluginSetup sampleCatalog (Some ''browser'') (Some reflectOptions) = Inr st"
      and entries: "(''Reflect'', reflectRule) \<in> set (namespaceEntries st)"
    by auto
  from sample_node_run obtain st'
    where st': "pluginSetup sampleCatalog None (Some reflectOptions) = Inr st'"
      and entries': "(''Reflect'', reflectRule) \<in> set (namespaceEntries st')"
    by auto
  have r: "rule reflectRule =
             Some (Platform [(''node'', DiffNode (ObjectNode [(''ownKeys'', Func)])),
                             (''browser'', DiffNoop)])"
    by (simp add: reflectRule_def)
  have n: "map_of [(''node'', DiffNode (ObjectNode [(''ownKeys'', Func)])), (''browser'', DiffNoop)]
             ''node'' = Some (DiffNode (ObjectNode [(''ownKeys'', Func)]))"
    by simp
  have b: "map_of [(''node'', DiffNode (ObjectNode [(''ownKeys'', Func)])), (''browser'', DiffNoop)]
             ''browser'' = Some DiffNoop"
    by simp
  have m: "nodeMembers (ObjectNode [(''ownKeys'', Func)]) = Some [(''ownKeys'', Func)]"
    by simp
  from platform_selection [OF r n b, of sampleCatalog "Some reflectOptions" st "''Reflect''" None
      "Some reflectOptions" st' "[(''ownKeys'', Func)]"] st entries st' entries' m
  have "proxyMapping st ''Reflect'' = Some (varOnlyEntry ''Reflect'' (code reflectRule))"
    and "proxyMapping st' ''Reflect'' =
           Some (membersEntry ''Reflect'' (code reflectRule) [(''ownKeys'', Func)])"
    by simp_all
  then show ?thesis
    by (simp add: st st' exportsScriptOf_def varOnlyEntry_def membersEntry_def reflectRule_def
          evalScripts_def evalScript_def pureComment_def enumerate_eval)
qed

section \<open>Loading a real file\<close>

lemma importScripts_total:
  "list_all (\<lambda>entry. m (fst entry) \<noteq> None) entries \<Longrightarrow>
   importScripts m entries =
     Inr (map (\<lambda>entry. case m (fst entry) of None \<Rightarrow> [] | Some e \<Rightarrow> proxyNamespaceImportsScript e) entries)"
  by (induction entries) (auto split: option.splits)

lemma pluginSetup_dom:
  assumes "pluginSetup cat p options = Inr st" and "entry \<in> set (namespaceEntries st)"
  shows "proxyMapping st (fst entry) \<noteq> None"
  using pluginSetup_entry [OF assms(1), of "fst entry" "snd entry"] assms(2) by auto

lemma pluginSetup_importScripts:
  assumes "pluginSetup cat p options = Inr st"
  shows "importScripts (proxyMapping st) (matchedNamespaceEntries st path) =
           Inr (importFragments st (matchedNamespaceEntries st path))"
proof -
  have "list_all (\<lambda>entry. proxyMapping st (fst entry) \<noteq> None) (matchedNamespaceEntries st path)"
    using pluginSetup_dom [OF assms] by (auto simp: list_all_iff matchedNamespaceEntries_def)
  from importScripts_total [OF this] show ?thesis by (simp add: importFragments_def)
qed

text \<open>
  C7. A load request for a real file whose path no configured namespace accepts is
  declined, whatever the extension of the file; and the default \<^verbatim>\<open>applyTo\<close> rejects
  exactly the paths that contain \<^verbatim>\<open>node_modules\<close>.
\<close>

theorem applyTo_filtering:
  "((\<forall>entry \<in> set (namespaceEntries st). \<not> applyTo (snd entry) path)
      \<longrightarrow> onLoadFile env st path = Inr None) \<and>
   (\<not> defaultApplyTo path' \<longleftrightarrow> (\<exists>pre post. path' = pre @ ''node_modules'' @ post))"
proof (intro conjI impI)
  assume "\<forall>entry \<in> set (namespaceEntries st). \<not> applyTo (snd entry) path"
  then have "matchedNamespaceEntries st path = []"
    by (simp add: matchedNamespaceEntries_def filter_empty_conv)
  then show "onLoadFile env st path = Inr None"
    by (simp add: onLoadFile_def)
next
  show "\<not> defaultApplyTo path' \<longleftrightarrow> (\<exists>pre post. path' = pre @ ''node_modules'' @ post)"
    by (simp add: defaultApplyTo_def str_includes_iff)
qed

theorem applyTo_filtering_witness:
  "onLoadAfterSetup sampleEnv (pluginSetup sampleCatalog None (Some reflectOptions))
     ''/app/node_modules/pkg/index.js'' = Inr None \<and>
   \<not> defaultApplyTo ''/app/node_modules/pkg/index.js''"
proof -
  from sample_node_run obtain st
    where st: "pluginSetup sampleCatalog None (Some reflectOptions) = Inr st"
      and entries: "namespaceEntries st = [(''Reflect'', reflectRule)]"
    by blast
  have split: "''/app/node_modules/pkg/index.js'' = ''/app/'' @ ''node_modules'' @ ''/pkg/index.js''"
    by simp
  from applyTo_filtering [of st "''/app/node_modules/pkg/index.js''" sampleEnv
      "''/app/node_modules/pkg/index.js''"]
  have imp: "(\<forall>entry \<in> set (namespaceEntries st). \<not> applyTo (snd entry) ''/app/node_modules/pkg/index.js'')
      \<longrightarrow> onLoadFile sampleEnv st ''/app/node_modules/pkg/index.js'' = Inr None"
    and rej: "\<not> defaultApplyTo ''/app/node_modules/pkg/index.js'' \<longleftrightarrow>
      (\<exists>pre post. ''/app/node_modules/pkg/index.js'' = pre @ ''node_modules'' @ post)"
    by blast+
  from rej split have no: "\<not> defaultApplyTo ''/app/node_modules/pkg/index.js''"
    by blast
  then have "\<forall>entry \<in> set (namespaceEntries st). \<not> applyTo (snd entry) ''/app/node_modules/pkg/index.js''"
    by (simp add: entries reflectRule_def)
  with imp have "onLoadFile sampleEnv st ''/app/node_modules/pkg/index.js'' = Inr None"
    by blast
  with no show ?thesis by (simp add: st onLoadAfterSetup_def)
qed

lemma sample_collision_run:
  "\<exists>st. pluginSetup sampleCatalog None (Some collisionOptions) = Inr st \<and>
        namespaceEntries st = collisionEntries \<and>
        proxyMapping st ''Object'' = Some (varOnlyEntry ''Object'' []) \<and>
        proxyMapping st ''console'' = Some (membersEntry ''console'' [] [(''log'', FuncBind)]) \<and>
        proxyMapping st ''React'' =
          Some (membersEntry ''React'' ''/* lib */'' [(''createElement'', FuncBind)])"
  by (simp add: setup_eval collisionOptions_def collisionEntries_def varOnly_def)


lemma str_includes_char: "str_includes s [c] \<longleftrightarrow> c \<in> set s"
  by (induction s) auto

lemma onLoadFile_Some:
  assumes "pluginSetup cat p options = Inr st"
    and "matchedNamespaceEntries st path \<noteq> []"
    and "parseExt env path \<in> set scriptExtensions"
    and "readFile env path = Inr content"
  shows "onLoadFile env st path =
           Inr (Some \<lparr>contents = concat (importFragments st (matchedNamespaceEntries st path))
                                   @ [CHR 0x0A] @ content,
                      loader = chooseLoader (parseExt env path)\<rparr>)"
  using assms(2-4) pluginSetup_importScripts [OF assms(1), of path]
  by (simp add: onLoadFile_def)

lemma onLoadFile_SomeD:
  assumes "onLoadFile env st path = Inr (Some res)"
  shows "matchedNamespaceEntries st path \<noteq> []"
    and "parseExt env path \<in> set scriptExtensions"
    and "\<exists>content. readFile env path = Inr content"
    and "loader res = chooseLoader (parseExt env path)"
  using assms
  by (auto simp: onLoadFile_def Let_def split: if_splits sum.splits)

text \<open>
  C8. A load request for a real file whose extension is not one of the script extensions,
  \<^verbatim>\<open>.json\<close> for one, is declined, also when namespaces accept the path. For a script
  extension the loader follows the characters \<^verbatim>\<open>t\<close> and \<^verbatim>\<open>x\<close> of the extension:
  \<^verbatim>\<open>.tsx\<close> holds both and is loaded as \<^verbatim>\<open>tsx\<close>.
\<close>

theorem extension_gating:
  "(parseExt env path \<notin> set scriptExtensions \<longrightarrow> onLoadFile env st path = Inr None) \<and>
   ''.json'' \<notin> set scriptExtensions \<and>
   (onLoadFile env st path = Inr (Some res) \<longrightarrow>
      parseExt env path \<in> set scriptExtensions \<and> loader res = chooseLoader (parseExt env path)) \<and>
   chooseLoader ext =
     (if CHR ''t'' \<in> set ext then (if CHR ''x'' \<in> set ext then Tsx else Ts)
      else if CHR ''x'' \<in> set ext then Jsx else Js) \<and>
   (pluginSetup cat p options = Inr st \<and> matchedNamespaceEntries st path \<noteq> [] \<and>
    parseExt env path = ''.tsx'' \<and> readFile env path = Inr content \<longrightarrow>
      (\<exists>res'. onLoadFile env st path = Inr (Some res') \<and> loader res' = Tsx)) \<and>
   str_includes ''.tsx'' ''t'' \<and> str_includes ''.tsx'' ''x''"
proof (intro conjI impI)
  assume "parseExt env path \<notin> set scriptExtensions"
  then show "onLoadFile env st path = Inr None"
    by (simp add: onLoadFile_def Let_def)
next
  show "''.json'' \<notin> set scriptExtensions"
    by (simp add: scriptExtensions_def)
next
  assume "onLoadFile env st path = Inr (Some res)"
  then show "parseExt env path \<in> set scriptExtensions"
    and "loader res = chooseLoader (parseExt env path)"
    by (rule onLoadFile_SomeD)+
next
  show "chooseLoader ext =
     (if CHR ''t'' \<in> set ext then (if CHR ''x'' \<in> set ext then Tsx else Ts)
      else if CHR ''x'' \<in> set ext then Jsx else Js)"
    by (simp add: chooseLoader_def str_includes_char)
next
  assume a: "pluginSetup cat p options = Inr st \<and> matchedNamespaceEntries st path \<noteq> [] \<and>
    parseExt env path = ''.tsx'' \<and> readFile env path = Inr content"
  then have "parseExt env path \<in> set scriptExtensions"
    by (simp add: scriptExtensions_def)
  with a have "onLoadFile env st path =
           Inr (Some \<lparr>contents = concat (importFragments st (matchedNamespaceEntries st path))
                                   @ [CHR 0x0A] @ content,
                      loader = chooseLoader (parseExt env path)\<rparr>)"
    by (blast intro: onLoadFile_Some)
  moreover have "chooseLoader ''.tsx'' = Tsx"
    by (simp add: chooseLoader_def)
  ultimately show "\<exists>res'. onLoadFile env st path = Inr (Some res') \<and> loader res' = Tsx"
    using a by simp
next
  show "str_includes ''.tsx'' ''t''" by simp
next
  show "str_includes ''.tsx'' ''x''" by simp
qed

theorem extension_gating_witness:
  "onLoadAfterSetup sampleEnv (pluginSetup sampleCatalog None (Some collisionOptions))
     ''/app/src/data.json'' = Inr None \<and>
   map_sum id (map_option loader)
     (onLoadAfterSetup sampleEnv (pluginSetup sampleCatalog None (Some collisionOptions))
        ''/app/src/App.tsx'') = Inr (Some Tsx)"
proof -
  from sample_collision_run obtain st
    where st: "pluginSetup sampleCatalog None (Some collisionOptions) = Inr st"
      and entries: "namespaceEntries st = collisionEntries"
    by blast
  have json: "parseExt sampleEnv ''/app/src/data.json'' \<notin> set scriptExtensions"
    by (simp add: sampleEnv_def scriptExtensions_def)
  have tsx: "parseExt sampleEnv ''/app/src/App.tsx'' = ''.tsx''"
    by (simp add: sampleEnv_def)
  have matched: "matchedNamespaceEntries st ''/app/src/App.tsx'' \<noteq> []"
    by (simp add: matchedNamespaceEntries_def entries collisionEntries_def)
  have content: "readFile sampleEnv ''/app/src/App.tsx'' = Inr ''console.log(1);''"
    by (simp add: sampleEnv_def)
  from extension_gating [of sampleEnv "''/app/src/data.json''" st _ _ sampleCatalog None
      "Some collisionOptions" _] json
  have a: "onLoadFile sampleEnv st ''/app/src/data.json'' = Inr None"
    by blast
  from extension_gating [of sampleEnv "''/app/src/App.tsx''" st _ _ sampleCatalog None
      "Some collisionOptions" "''console.log(1);''"] st matched tsx content
  have "\<exists>res'. onLoadFile sampleEnv st ''/app/src/App.tsx'' = Inr (Some res') \<and> loader res' = Tsx"
    by blast
  with a show ?thesis by (auto simp: st onLoadAfterSetup_def)
qed

section \<open>The merged mapping\<close>

lemma set_firstOccurrences [simp]: "set (firstOccurrences xs) = set xs"
  by (induction xs rule: firstOccurrences.induct) auto

lemma firstOccurrences_append:
  "firstOccurrences (xs @ ys) = firstOccurrences xs @ firstOccurrences (filter (\<lambda>y. y \<notin> set xs) ys)"
proof (induction xs arbitrary: ys rule: firstOccurrences.induct)
  case 1
  then show ?case by simp
next
  case (2 x xs)
  have "filter (\<lambda>y. y \<notin> set (filter (\<lambda>y. y \<noteq> x) xs)) (filter (\<lambda>y. y \<noteq> x) ys)
          = filter (\<lambda>y. y \<notin> set (x # xs)) ys"
    by (auto intro: filter_cong)
  with 2 [of "filter (\<lambda>y. y \<noteq> x) ys"] show ?case by simp
qed


lemma firstOccurrences_distinct: "distinct xs \<Longrightarrow> firstOccurrences xs = xs"
proof (induction xs)
  case Nil
  then show ?case by simp
next
  case (Cons x xs)
  then have "filter (\<lambda>y. y \<noteq> x) xs = xs"
    by (auto simp: filter_id_conv)
  with Cons show ?case by simp
qed

lemma keys_update:
  "map fst (AList.update k v al) = (if k \<in> set (map fst al) then map fst al else map fst al @ [k])"
  by (simp add: update_keys)

lemma keys_assignEntries:
  "map fst (assignEntries target entries) =
     map fst target @ firstOccurrences (filter (\<lambda>k. k \<notin> set (map fst target)) (map fst entries))"
proof (induction target entries rule: assignEntries.induct)
  case (1 target)
  then show ?case by simp
next
  case (2 target k v entries)
  show ?case
  proof (cases "k \<in> set (map fst target)")
    case True
    with 2 show ?thesis by (simp add: keys_update)
  next
    case False
    have "filter (\<lambda>y. y \<notin> set (map fst target @ [k])) (map fst entries)
            = filter (\<lambda>y. y \<noteq> k) (filter (\<lambda>y. y \<notin> set (map fst target)) (map fst entries))"
      by (auto intro: filter_cong)
    with 2 False show ?thesis by (simp add: keys_update)
  qed
qed




text \<open>The keys of the merged object, in the order of their creation.\<close>

lemma keys_mergedNamespaces:
  "map fst (mergedNamespaces cs vs l) = firstOccurrences (objectKeys cs @ objectKeys vs @ objectKeys l)"
proof -
  let ?one = "objectAssign [] cs" and ?two = "objectAssign (objectAssign [] cs) vs"
  have one: "map fst ?one = firstOccurrences (objectKeys cs)"
    by (simp add: objectAssign_def keys_assignEntries objectKeys_def)
  have "map fst ?two
          = map fst ?one @ firstOccurrences (filter (\<lambda>k. k \<notin> set (map fst ?one)) (objectKeys vs))"
    unfolding objectAssign_def [of ?one] objectKeys_def by (rule keys_assignEntries)
  also have "\<dots> = firstOccurrences (objectKeys cs)
                  @ firstOccurrences (filter (\<lambda>k. k \<notin> set (objectKeys cs)) (objectKeys vs))"
    by (simp only: one set_firstOccurrences)
  also have "\<dots> = firstOccurrences (objectKeys cs @ objectKeys vs)"
    by (rule firstOccurrences_append [symmetric])
  finally have two: "map fst ?two = firstOccurrences (objectKeys cs @ objectKeys vs)" .
  have "map fst (mergedNamespaces cs vs l)
          = map fst ?two @ firstOccurrences (filter (\<lambda>k. k \<notin> set (map fst ?two)) (objectKeys l))"
    unfolding mergedNamespaces_def objectAssign_def [of ?two] objectKeys_def
    by (rule keys_assignEntries)
  also have "\<dots> = firstOccurrences (objectKeys cs @ objectKeys vs)
                  @ firstOccurrences (filter (\<lambda>k. k \<notin> set (objectKeys cs @ objectKeys vs)) (objectKeys l))"
    by (simp only: two set_firstOccurrences)
  also have "\<dots> = firstOccurrences ((objectKeys cs @ objectKeys vs) @ objectKeys l)"
    by (rule firstOccurrences_append [symmetric])
  finally show ?thesis by simp
qed






lemma pluginSetup_groups:
  assumes "pluginSetup cat p options = Inr st"
  shows "\<exists>warns1 cs warns2 vs.
           applyRules ''constructor'' cat [] (mergedKey defaultConstructors constructors options)
             = Inr (warns1, cs) \<and>
           applyRules ''variable'' cat warns1 (mergedKey defaultVars vars options) = Inr (warns2, vs) \<and>
           namespaceEntries st = objectEntries (mergedNamespaces cs vs (libOf options))"
  using assms
  by (auto simp: pluginSetup_def Let_def split: sum.splits prod.splits)




section \<open>Options that hold undefined\<close>

lemma pluginSetup_cong:
  assumes "mergedKey defaultConstructors constructors options
             = mergedKey defaultConstructors constructors options'"
    and "mergedKey defaultVars vars options = mergedKey defaultVars vars options'"
    and "libOf options = libOf options'"
  shows "pluginSetup cat p options = pluginSetup cat p options'"
  unfolding pluginSetup_def assms by (rule refl)

lemma keys_reduceNames:
  "reduceNames what cat (warns, acc) names = Inr (warns', acc') \<Longrightarrow>
   set (map fst acc') = set (map fst acc) \<union> set names"
  by (induction names arbitrary: warns acc)
     (auto simp: falsy_def dom_update split: sum.splits)

lemma pluginSetup_names:
  assumes "pluginSetup cat p options = Inr st"
    and "applyRules ''constructor'' cat [] (mergedKey defaultConstructors constructors options)
           = Inr (warns1, cs)"
    and "applyRules ''variable'' cat warns1 (mergedKey defaultVars vars options) = Inr (warns2, vs)"
  shows "set (map fst (namespaceEntries st))
           = set (map fst cs) \<union> set (map fst vs) \<union> set (map fst (libOf options))"
proof -
  from assms have "namespaceEntries st = objectEntries (mergedNamespaces cs vs (libOf options))"
    by (auto simp: pluginSetup_def Let_def split: sum.splits)
  then have "set (map fst (namespaceEntries st)) = set (map fst (mergedNamespaces cs vs (libOf options)))"
    by simp
  also have "\<dots> = set (objectKeys cs) \<union> set (objectKeys vs) \<union> set (objectKeys (libOf options))"
    by (simp add: keys_mergedNamespaces Un_assoc)
  finally show ?thesis by (simp add: objectKeys_def)
qed

text \<open>
  C10. An options object whose key \<^verbatim>\<open>constructors\<close> or \<^verbatim>\<open>vars\<close> is present and holds
  \<^verbatim>\<open>undefined\<close> does not get the default of that key: the merge keeps \<^verbatim>\<open>undefined\<close>,
  which is neither an array nor an object with entries, and setup throws. An options
  object without the key gets the default: the merge yields the default list, the run is
  the run of the options that give that list, the default constructor \<^verbatim>\<open>Object\<close> is
  resolved from the catalog, and a setup that returns has configured the default names.
\<close>

theorem explicit_undefined_not_defaulted:
  "(constructors opts = Undefined \<or> vars opts = Undefined
      \<longrightarrow> (\<exists>e. pluginSetup cat p (Some opts) = Inl e)) \<and>
   (constructors opts = Undefined \<longrightarrow> pluginSetup cat p (Some opts) = Inl TypeError) \<and>
   (constructors opts = Undefined \<longrightarrow>
      mergedKey defaultConstructors constructors (Some opts) = None) \<and>
   (vars opts = Undefined \<longrightarrow> mergedKey defaultVars vars (Some opts) = None) \<and>
   (constructors opts = Absent \<longrightarrow>
      pluginSetup cat p (Some opts)
        = pluginSetup cat p (Some (opts\<lparr>constructors := Given (NameList [''Object''])\<rparr>))) \<and>
   (vars opts = Absent \<longrightarrow>
      pluginSetup cat p (Some opts)
        = pluginSetup cat p
            (Some (opts\<lparr>vars := Given (NameList [''console'', ''JSON'', ''Math'', ''Reflect''])\<rparr>))) \<and>
   (constructors opts = Absent \<longrightarrow>
      mergedKey defaultConstructors constructors (Some opts) = Some (NameList [''Object''])) \<and>
   (vars opts = Absent \<longrightarrow>
      mergedKey defaultVars vars (Some opts)
        = Some (NameList [''console'', ''JSON'', ''Math'', ''Reflect''])) \<and>
   mergedKey defaultConstructors constructors None = Some (NameList [''Object'']) \<and>
   mergedKey defaultVars vars None = Some (NameList [''console'', ''JSON'', ''Math'', ''Reflect'']) \<and>
   (constructors opts = Absent \<and> isGlobalCtor cat ''Object'' \<longrightarrow>
      applyRules ''constructor'' cat [] (mergedKey defaultConstructors constructors (Some opts))
        = Inr ([], [(''Object'',
                     \<lparr>code = [], rule = globalConstructorWithStatics cat ''Object'',
                      applyTo = defaultApplyTo\<rparr>)])) \<and>
   (constructors opts = Absent \<and> pluginSetup cat p (Some opts) = Inr st \<longrightarrow>
      ''Object'' \<in> set (map fst (namespaceEntries st))) \<and>
   (vars opts = Absent \<and> pluginSetup cat p (Some opts) = Inr st \<longrightarrow>
      set [''console'', ''JSON'', ''Math'', ''Reflect''] \<subseteq> set (map fst (namespaceEntries st)))"
proof (intro conjI impI)
  assume "constructors opts = Undefined \<or> vars opts = Undefined"
  then show "\<exists>e. pluginSetup cat p (Some opts) = Inl e"
    by (auto simp: pluginSetup_def mergedKey_def assignKey_def applyRules_def
             split: sum.splits prod.splits)
next
  assume "constructors opts = Undefined"
  then show "pluginSetup cat p (Some opts) = Inl TypeError"
    by (simp add: pluginSetup_def mergedKey_def assignKey_def applyRules_def)
next
  assume "constructors opts = Undefined"
  then show "mergedKey defaultConstructors constructors (Some opts) = None"
    by (simp add: mergedKey_def assignKey_def)
next
  assume "vars opts = Undefined"
  then show "mergedKey defaultVars vars (Some opts) = None"
    by (simp add: mergedKey_def assignKey_def)
next
  assume "constructors opts = Absent"
  then show "pluginSetup cat p (Some opts)
        = pluginSetup cat p (Some (opts\<lparr>constructors := Given (NameList [''Object''])\<rparr>))"
    by (intro pluginSetup_cong)
       (simp_all add: mergedKey_def assignKey_def libOf_def defaultConstructors_def)
next
  assume "vars opts = Absent"
  then show "pluginSetup cat p (Some opts)
        = pluginSetup cat p
            (Some (opts\<lparr>vars := Given (NameList [''console'', ''JSON'', ''Math'', ''Reflect''])\<rparr>))"
    by (intro pluginSetup_cong)
       (simp_all add: mergedKey_def assignKey_def libOf_def defaultVars_def)
next
  assume "constructors opts = Absent"
  then show "mergedKey defaultConstructors constructors (Some opts) = Some (NameList [''Object''])"
    by (simp add: mergedKey_def assignKey_def defaultConstructors_def)
next
  assume "vars opts = Absent"
  then show "mergedKey defaultVars vars (Some opts)
        = Some (NameList [''console'', ''JSON'', ''Math'', ''Reflect''])"
    by (simp add: mergedKey_def assignKey_def defaultVars_def)
next
  show "mergedKey defaultConstructors constructors None = Some (NameList [''Object''])"
    by (simp add: mergedKey_def defaultConstructors_def)
next
  show "mergedKey defaultVars vars None = Some (NameList [''console'', ''JSON'', ''Math'', ''Reflect''])"
    by (simp add: mergedKey_def defaultVars_def)
next
  assume "constructors opts = Absent \<and> isGlobalCtor cat ''Object''"
  then show "applyRules ''constructor'' cat [] (mergedKey defaultConstructors constructors (Some opts))
        = Inr ([], [(''Object'',
                     \<lparr>code = [], rule = globalConstructorWithStatics cat ''Object'',
                      applyTo = defaultApplyTo\<rparr>)])"
    by (simp add: mergedKey_def assignKey_def defaultConstructors_def applyRules_def
          defaultProxyNamespaceRule_def falsy_def)
next
  assume a: "constructors opts = Absent \<and> pluginSetup cat p (Some opts) = Inr st"
  with pluginSetup_groups [of cat p "Some opts" st] obtain warns1 cs warns2 vs
    where c: "applyRules ''constructor'' cat [] (mergedKey defaultConstructors constructors (Some opts))
                = Inr (warns1, cs)"
      and v: "applyRules ''variable'' cat warns1 (mergedKey defaultVars vars (Some opts))
                = Inr (warns2, vs)"
    by blast
  from a c have "reduceNames ''constructor'' cat ([], []) [''Object''] = Inr (warns1, cs)"
    by (simp add: mergedKey_def assignKey_def defaultConstructors_def applyRules_def)
  from keys_reduceNames [OF this] have "''Object'' \<in> set (map fst cs)" by simp
  with pluginSetup_names [OF _ c v] a show "''Object'' \<in> set (map fst (namespaceEntries st))"
    by blast
next
  assume a: "vars opts = Absent \<and> pluginSetup cat p (Some opts) = Inr st"
  with pluginSetup_groups [of cat p "Some opts" st] obtain warns1 cs warns2 vs
    where c: "applyRules ''constructor'' cat [] (mergedKey defaultConstructors constructors (Some opts))
                = Inr (warns1, cs)"
      and v: "applyRules ''variable'' cat warns1 (mergedKey defaultVars vars (Some opts))
                = Inr (warns2, vs)"
    by blast
  from a v have "reduceNames ''variable'' cat (warns1, []) [''console'', ''JSON'', ''Math'', ''Reflect'']
                   = Inr (warns2, vs)"
    by (simp add: mergedKey_def assignKey_def defaultVars_def applyRules_def)
  from keys_reduceNames [OF this]
  have "set [''console'', ''JSON'', ''Math'', ''Reflect''] \<subseteq> set (map fst vs)" by simp
  with pluginSetup_names [OF _ c v] a
  show "set [''console'', ''JSON'', ''Math'', ''Reflect''] \<subseteq> set (map fst (namespaceEntries st))"
    by blast
qed

theorem explicit_undefined_not_defaulted_witness:
  "pluginSetup sampleCatalog None (Some undefinedOptions) = Inl TypeError \<and>
   mergedKey defaultConstructors constructors (Some omittedOptions) = Some (NameList [''Object'']) \<and>
   exportsScriptOf (pluginSetup sampleCatalog None (Some omittedOptions)) ''Object''
     = Some ''const keys=/* @__PURE__ */Object.keys;const assign=/* @__PURE__ */Object.assign;export {keys,assign};''"
proof -
  have u: "constructors undefinedOptions = Undefined"
    by (simp add: undefinedOptions_def)
  have a: "constructors omittedOptions = Absent"
    by (simp add: omittedOptions_def)
  from explicit_undefined_not_defaulted [of undefinedOptions sampleCatalog None] u
  have one: "pluginSetup sampleCatalog None (Some undefinedOptions) = Inl TypeError"
    by blast
  from explicit_undefined_not_defaulted [of omittedOptions sampleCatalog None] a
  have two: "mergedKey defaultConstructors constructors (Some omittedOptions) = Some (NameList [''Object''])"
    and run: "pluginSetup sampleCatalog None (Some omittedOptions)
     = pluginSetup sampleCatalog None
         (Some (omittedOptions\<lparr>constructors := Given (NameList [''Object''])\<rparr>))"
    by blast+
  have "exportsScriptOf
          (pluginSetup sampleCatalog None
             (Some (omittedOptions\<lparr>constructors := Given (NameList [''Object''])\<rparr>))) ''Object''
     = Some ''const keys=/* @__PURE__ */Object.keys;const assign=/* @__PURE__ */Object.assign;export {keys,assign};''"
    by (simp add: setup_eval omittedOptions_def exportsScriptOf_def membersEntry_def
          evalScripts_def evalScript_def pureComment_def)
  with one two run show ?thesis by simp
qed

section \<open>Members of kind property\<close>

lemma property_member_not_hoisted:
  "map_of members member = Some Property \<Longrightarrow> evalScript namespace members member = []"
  by (simp add: evalScript_def)

text \<open>
  C1. The members of kind \<^verbatim>\<open>property\<close> get no hoisted declaration, but the export
  statement is built from all the keys of the member table. With the lib entry
  \<^verbatim>\<open>console: {log: "func-bind", memory: "property"}\<close> the export fragment of
  \<^verbatim>\<open>console\<close> declares \<^verbatim>\<open>log\<close> alone and exports \<^verbatim>\<open>log\<close> and \<^verbatim>\<open>memory\<close>.
\<close>

theorem property_member_exported:
  "exportsScriptOf (pluginSetup cat p (Some propertyOptions)) ''console''
     = Some ''const log=/* @__PURE__ */console.log.bind(console);export {log,memory};''"
  by (simp add: exportsScriptOf_def pluginSetup_def applyRules_def mergedKey_def assignKey_def
        libOf_def mergedNamespaces_def objectAssign_def proxyStep_def propertyOptions_def
        membersEntry_def evalScripts_def evalScript_def pureComment_def enumerate_eval)

section \<open>Names that the catalog does not know\<close>

lemma reduceNames_unknown:
  "name \<in> set names \<Longrightarrow> \<not> isGlobalCtor cat name \<Longrightarrow> \<not> isGlobalVar cat name \<Longrightarrow>
   \<exists>n. n \<in> set names \<and> reduceNames what cat (warns, acc) names = Inl (Error (''Unknown global name '' @ n))"
proof (induction names arbitrary: warns acc)
  case Nil
  then show ?case by simp
next
  case (Cons a names)
  show ?case
  proof (cases "isGlobalCtor cat a \<or> isGlobalVar cat a")
    case True
    with Cons.prems have "name \<in> set names" by auto
    from Cons.IH [OF this Cons.prems(2,3)] True show ?thesis
      by (auto simp: defaultProxyNamespaceRule_def falsy_def)
  next
    case False
    then show ?thesis
      by (auto simp: defaultProxyNamespaceRule_def)
  qed
qed

lemma reduceNames_warns:
  "reduceNames what cat (warns, acc) names = Inr (warns', acc') \<Longrightarrow> warns' = warns"
  by (induction names arbitrary: acc) (auto simp: falsy_def split: sum.splits)

lemma applyRules_warns:
  "applyRules what cat warns config = Inr (warns', acc) \<Longrightarrow> warns' = warns"
  by (auto simp: applyRules_def split: option.splits ApplyRulesConfig.splits dest: reduceNames_warns)

lemma pluginSetup_warnings:
  assumes "pluginSetup cat p options = Inr st"
  shows "warnings st = []"
proof -
  from assms obtain warns1 cs warns2 vs
    where c: "applyRules ''constructor'' cat [] (mergedKey defaultConstructors constructors options)
                = Inr (warns1, cs)"
      and v: "applyRules ''variable'' cat warns1 (mergedKey defaultVars vars options) = Inr (warns2, vs)"
      and w: "warnings st = warns2"
    by (auto simp: pluginSetup_def Let_def split: sum.splits prod.splits)
  from applyRules_warns [OF c] applyRules_warns [OF v] w show ?thesis by simp
qed

text \<open>
  C2. A name in a plain list that is neither a global constructor nor a global variable
  makes \<^verbatim>\<open>defaultProxyNamespaceRule\<close> throw, so that setup ends with the error
  \<^verbatim>\<open>Unknown global name\<close>; the branch that warns and skips the name is never taken, and
  no run of setup prints a warning.
\<close>

theorem unknown_listed_name_aborts:
  assumes "name \<in> set names" and "\<not> isGlobalCtor cat name" and "\<not> isGlobalVar cat name"
  shows "(constructors opts = Given (NameList names) \<longrightarrow>
            (\<exists>n. n \<in> set names \<and>
                 pluginSetup cat p (Some opts) = Inl (Error (''Unknown global name '' @ n)))) \<and>
         (vars opts = Given (NameList names) \<longrightarrow> (\<exists>e. pluginSetup cat p (Some opts) = Inl e)) \<and>
         (\<forall>st. pluginSetup cat p options = Inr st \<longrightarrow> warnings st = [])"
proof (intro conjI impI allI)
  assume "constructors opts = Given (NameList names)"
  with reduceNames_unknown [OF assms, of "''constructor''" "[]" "[]"]
  show "\<exists>n. n \<in> set names \<and>
             pluginSetup cat p (Some opts) = Inl (Error (''Unknown global name '' @ n))"
    by (auto simp: pluginSetup_def mergedKey_def assignKey_def applyRules_def)
next
  assume v: "vars opts = Given (NameList names)"
  show "\<exists>e. pluginSetup cat p (Some opts) = Inl e"
  proof (cases "applyRules ''constructor'' cat [] (mergedKey defaultConstructors constructors (Some opts))")
    case (Inl e)
    then show ?thesis by (simp add: pluginSetup_def)
  next
    case (Inr res)
    obtain warns1 cs where res: "res = (warns1, cs)" by (cases res)
    from reduceNames_unknown [OF assms, of "''variable''" warns1 "[]"] v Inr
    show ?thesis
      by (auto simp: pluginSetup_def res mergedKey_def assignKey_def applyRules_def)
  qed
next
  fix st
  assume "pluginSetup cat p options = Inr st"
  then show "warnings st = []" by (rule pluginSetup_warnings)
qed

theorem unknown_listed_name_aborts_witness:
  "pluginSetup sampleCatalog None (Some unknownNameOptions) = Inl (Error ''Unknown global name Foo'')"
proof -
  have "''Foo'' \<in> set [''Object'', ''Foo'']" by simp
  moreover have "\<not> isGlobalCtor sampleCatalog ''Foo''" "\<not> isGlobalVar sampleCatalog ''Foo''"
    by (simp_all add: sampleCatalog_def)
  moreover have "constructors unknownNameOptions = Given (NameList [''Object'', ''Foo''])"
    by (simp add: unknownNameOptions_def)
  ultimately have "\<exists>n. n \<in> set [''Object'', ''Foo''] \<and>
      pluginSetup sampleCatalog None (Some unknownNameOptions) = Inl (Error (''Unknown global name '' @ n))"
    using unknown_listed_name_aborts [of "''Foo''" "[''Object'', ''Foo'']" sampleCatalog
        unknownNameOptions None] by blast
  moreover have "pluginSetup sampleCatalog None (Some unknownNameOptions)
                   \<noteq> Inl (Error (''Unknown global name '' @ ''Object''))"
    by (simp add: pluginSetup_def applyRules_def mergedKey_def assignKey_def
          defaultProxyNamespaceRule_def sampleCatalog_def falsy_def unknownNameOptions_def)
  ultimately show ?thesis by auto
qed

section \<open>The pure hint\<close>

lemma member_script_pure_hint:
  "(map_of members member = Some Constant \<or> map_of members member = Some Func \<longrightarrow>
      evalScript namespace members member =
        ''const '' @ member @ ''='' @ ''/* @__PURE__ */'' @ namespace @ ''.'' @ member @ '';'') \<and>
   (map_of members member = Some FuncBind \<longrightarrow>
      evalScript namespace members member =
        ''const '' @ member @ ''='' @ ''/* @__PURE__ */'' @ namespace @ ''.'' @ member
          @ ''.bind('' @ namespace @ '');'')"
  by (auto simp: evalScript_def pureComment_def)

text \<open>
  C3. The comment \<^verbatim>\<open>/* @__PURE__ */\<close> is a constant of the script of every member of
  kind \<^verbatim>\<open>constant\<close>, \<^verbatim>\<open>func\<close> or \<^verbatim>\<open>func-bind\<close>, and setup reads no key \<^verbatim>\<open>pure\<close>.
  With the options \<^verbatim>\<open>pure: false\<close> and the lib entry
  \<^verbatim>\<open>console: {log: "func-bind", error: "func"}\<close>, under every catalog and platform, the
  export fragment of \<^verbatim>\<open>console\<close> carries the comment before both member expressions.
\<close>

theorem pure_false_hint_emitted:
  "pure pureOffOptions = Given False \<and>
   exportsScriptOf (pluginSetup cat p (Some pureOffOptions)) ''console''
     = Some ''const log=/* @__PURE__ */console.log.bind(console);const error=/* @__PURE__ */console.error;export {log,error};'' \<and>
   str_includes
     ''const log=/* @__PURE__ */console.log.bind(console);const error=/* @__PURE__ */console.error;export {log,error};''
     pureComment"
  by (simp add: exportsScriptOf_def pluginSetup_def applyRules_def mergedKey_def assignKey_def
        libOf_def mergedNamespaces_def objectAssign_def proxyStep_def pureOffOptions_def
        membersEntry_def evalScripts_def evalScript_def pureComment_def enumerate_eval)

section \<open>Entries in mapping form and lib entries\<close>











end
